theory Spec2Isabelle
  imports Main "HOL-Library.Multiset"
begin

section \<open>Data model\<close>

text \<open>
  Ids are JavaScript numbers holding integers (counters starting at 1, SERIAL columns),
  modelled as \<open>int\<close>. Timestamps (\<open>new Date()\<close>, \<open>NOW()\<close>) are clock readings in
  milliseconds, modelled as \<open>nat\<close>; an ISO string and the instant it denotes are
  identified. Strings are character lists.
\<close>

record user =
  u_id :: int
  u_email :: string
  u_password :: string
  u_name :: string
  u_created_at :: nat

record post =
  p_id :: int
  p_title :: string
  p_content :: string
  p_user_id :: int
  p_created_at :: nat
  p_updated_at :: nat

text \<open>The in-memory store of server-dev.js (\<open>const dataStore = {...}\<close>).\<close>

record dataStore =
  users :: "user list"
  posts :: "post list"
  nextUserId :: int
  nextPostId :: int

definition emptyStore :: dataStore where
  "emptyStore = \<lparr>users = [], posts = [], nextUserId = 1, nextPostId = 1\<rparr>"

text \<open>The payload signed into a token: \<open>{ id, email }\<close>.\<close>

record token_payload =
  tp_id :: int
  tp_email :: string

text \<open>A row of \<open>GET /api/posts\<close>: the post with \<open>author_name\<close> and \<open>author_email\<close>.\<close>

record listed_post =
  lp_post :: post
  author_name :: string
  author_email :: string

text \<open>The JSON request body: each field is absent (\<open>undefined\<close>) or a string.\<close>

record body =
  b_email :: "string option"
  b_password :: "string option"
  b_name :: "string option"
  b_title :: "string option"
  b_content :: "string option"

definition no_body :: body where
  "no_body = \<lparr>b_email = None, b_password = None, b_name = None, b_title = None, b_content = None\<rparr>"

section \<open>Responses\<close>

text \<open>
  A response is its HTTP status and its JSON body. \<open>Errors\<close> is \<open>{ errors: [...] }\<close>
  (the fields that failed validation, in the order of the validators), \<open>Error\<close> is
  \<open>{ error: msg }\<close>; the other constructors are the success bodies of the routes.
\<close>

datatype json =
    Errors "string list"
  | Error string
  | Registered int string string nat string
  | LoggedIn int string string string
  | Profile int string string nat
  | Posts "listed_post list"
  | PostCreated post
  | PostUpdated post
  | Message string

type_synonym response = "nat \<times> json"

abbreviation ValidationError :: "string list \<Rightarrow> response" where
  "ValidationError es \<equiv> (400, Errors es)"

abbreviation Conflict :: response where
  "Conflict \<equiv> (409, Error ''User already exists'')"

abbreviation InvalidCredentials :: response where
  "InvalidCredentials \<equiv> (401, Error ''Invalid credentials'')"

abbreviation MissingToken :: response where
  "MissingToken \<equiv> (401, Error ''Access token required'')"

abbreviation InvalidToken :: response where
  "InvalidToken \<equiv> (403, Error ''Invalid or expired token'')"

abbreviation NotFound :: response where
  "NotFound \<equiv> (404, Error ''Post not found'')"

abbreviation UserNotFound :: response where
  "UserNotFound \<equiv> (404, Error ''User not found'')"

abbreviation ForbiddenEdit :: response where
  "ForbiddenEdit \<equiv> (403, Error ''Unauthorized to edit this post'')"

abbreviation ForbiddenDelete :: response where
  "ForbiddenDelete \<equiv> (403, Error ''Unauthorized to delete this post'')"

abbreviation Internal :: response where
  "Internal \<equiv> (500, Error ''Internal server error'')"

section \<open>The libraries and the environment\<close>

text \<open>
  The handlers call express-validator, bcrypt, jsonwebtoken, JavaScript's \<open>parseInt\<close>
  and the database server's integer input. None of them is code of this repository, so
  they are parameters of the model: every theorem below holds for all of them, and says
  so where it needs a property of one.

  \<^item> \<open>bcrypt_hash password rounds salt\<close>: the salt is the randomness bcrypt draws;
  \<^item> \<open>jwt_sign payload secret expiresIn now\<close>, with \<open>expiresIn\<close> in seconds and
    \<open>now\<close> the clock in milliseconds; \<open>jwt_verify token secret now\<close> is the decoded
    payload, or \<open>None\<close> where the library reports an error;
  \<^item> \<open>parseInt s\<close> is \<open>None\<close> for \<open>NaN\<close>;
  \<^item> \<open>int4in s\<close> is \<open>None\<close> where the database rejects \<open>s\<close> as an integer.
\<close>

record lib =
  isEmail :: "string \<Rightarrow> bool"
  normalizeEmail :: "string \<Rightarrow> string"
  bcrypt_hash :: "string \<Rightarrow> nat \<Rightarrow> string \<Rightarrow> string"
  bcrypt_compare :: "string \<Rightarrow> string \<Rightarrow> bool"
  jwt_sign :: "token_payload \<Rightarrow> string \<Rightarrow> nat \<Rightarrow> nat \<Rightarrow> string"
  jwt_verify :: "string \<Rightarrow> string \<Rightarrow> nat \<Rightarrow> token_payload option"
  parseInt :: "string \<Rightarrow> int option"
  int4in :: "string \<Rightarrow> int option"

text \<open>\<open>process.env.JWT_SECRET || 'your-secret-key'\<close>: an unset or empty variable is falsy.\<close>

record config =
  JWT_SECRET :: "string option"

definition jwt_secret :: "config \<Rightarrow> string" where
  "jwt_secret cfg =
     (case JWT_SECRET cfg of
        None \<Rightarrow> ''your-secret-key''
      | Some s \<Rightarrow> if s = [] then ''your-secret-key'' else s)"

text \<open>\<open>expiresIn: '24h'\<close>, in seconds.\<close>

definition expiresIn :: nat where
  "expiresIn = 24 * 60 * 60"

section \<open>String helpers of the validators and of JavaScript\<close>

text \<open>
  \<open>trim()\<close> of validator.js removes white space at both ends; the white space of the
  8-bit characters modelled here is tab, line feed, vertical tab, form feed, carriage
  return and space.
\<close>

definition is_space :: "char \<Rightarrow> bool" where
  "is_space c = (c \<in> set [CHR 0x09, CHR 0x0A, CHR 0x0B, CHR 0x0C, CHR 0x0D, CHR 0x20])"

definition trim :: "string \<Rightarrow> string" where
  "trim s = rev (dropWhile is_space (rev (dropWhile is_space s)))"

text \<open>A validator reads an absent field as the empty string.\<close>

definition field_value :: "string option \<Rightarrow> string" where
  "field_value f = (case f of None \<Rightarrow> [] | Some s \<Rightarrow> s)"

definition isLength_min :: "nat \<Rightarrow> string \<Rightarrow> bool" where
  "isLength_min n s = (n \<le> length s)"

definition notEmpty :: "string \<Rightarrow> bool" where
  "notEmpty s = (s \<noteq> [])"

text \<open>\<open>optional().trim()\<close>: an absent field is left alone, a present one is trimmed.\<close>

definition optional_trim :: "string option \<Rightarrow> string option" where
  "optional_trim f = map_option trim f"

text \<open>\<open>if (title)\<close>: \<open>undefined\<close> and the empty string are falsy.\<close>

definition truthy :: "string option \<Rightarrow> bool" where
  "truthy f = (case f of None \<Rightarrow> False | Some s \<Rightarrow> s \<noteq> [])"

text \<open>\<open>s.split(c)\<close> for a one-character separator: \<open>''.split(' ')\<close> is \<open>['']\<close>.\<close>

fun split :: "char \<Rightarrow> string \<Rightarrow> string list" where
  "split c [] = [[]]"
| "split c (x # xs) =
     (if x = c then [] # split c xs
      else (case split c xs of
              [] \<Rightarrow> [[x]]
            | w # ws \<Rightarrow> (x # w) # ws))"

text \<open>\<open>xs.findIndex(P)\<close>, with \<open>None\<close> for \<open>-1\<close>.\<close>

fun findIndex :: "('a \<Rightarrow> bool) \<Rightarrow> 'a list \<Rightarrow> nat option" where
  "findIndex P [] = None"
| "findIndex P (x # xs) = (if P x then Some 0 else map_option Suc (findIndex P xs))"

text \<open>\<open>p.id === postId\<close>, where \<open>postId\<close> may be \<open>NaN\<close>, which equals nothing.\<close>

definition id_is :: "int option \<Rightarrow> post \<Rightarrow> bool" where
  "id_is postId p = (case postId of None \<Rightarrow> False | Some n \<Rightarrow> p_id p = n)"

text \<open>\<open>xs.splice(i, 1)\<close>.\<close>

definition splice1 :: "nat \<Rightarrow> 'a list \<Rightarrow> 'a list" where
  "splice1 i xs = take i xs @ drop (Suc i) xs"

section \<open>The token middleware (both servers)\<close>

text \<open>\<open>const token = authHeader && authHeader.split(' ')[1]\<close>, with \<open>None\<close> when falsy.\<close>

definition header_token :: "string option \<Rightarrow> string option" where
  "header_token authHeader =
     (case authHeader of
        None \<Rightarrow> None
      | Some h \<Rightarrow>
          if h = [] then None
          else (case split CHR '' '' h of
                  _ # t # _ \<Rightarrow> if t = [] then None else Some t
                | _ \<Rightarrow> None))"

definition authenticateToken ::
  "lib \<Rightarrow> config \<Rightarrow> nat \<Rightarrow> string option \<Rightarrow> response + token_payload" where
  "authenticateToken L cfg now authHeader =
     (case header_token authHeader of
        None \<Rightarrow> Inl MissingToken
      | Some token \<Rightarrow>
          (case jwt_verify L token (jwt_secret cfg) now of
             None \<Rightarrow> Inl InvalidToken
           | Some user \<Rightarrow> Inr user))"

text \<open>A protected route: the middleware answers itself, or hands \<open>req.user\<close> on.\<close>

definition protected ::
  "lib \<Rightarrow> config \<Rightarrow> nat \<Rightarrow> string option \<Rightarrow> 'st \<Rightarrow> (token_payload \<Rightarrow> response \<times> 'st) \<Rightarrow> response \<times> 'st" where
  "protected L cfg now authHeader st handler =
     (case authenticateToken L cfg now authHeader of
        Inl r \<Rightarrow> (r, st)
      | Inr user \<Rightarrow> handler user)"

section \<open>Request validation (both servers)\<close>

definition register_errors :: "lib \<Rightarrow> body \<Rightarrow> string list" where
  "register_errors L b =
     (if isEmail L (field_value (b_email b)) then [] else [''email'']) @
     (if isLength_min 6 (field_value (b_password b)) then [] else [''password'']) @
     (if notEmpty (field_value (b_name b)) then [] else [''name''])"

definition login_errors :: "lib \<Rightarrow> body \<Rightarrow> string list" where
  "login_errors L b =
     (if isEmail L (field_value (b_email b)) then [] else [''email'']) @
     (if notEmpty (field_value (b_password b)) then [] else [''password''])"

definition post_errors :: "body \<Rightarrow> string list" where
  "post_errors b =
     (if notEmpty (field_value (b_title b)) then [] else [''title'']) @
     (if notEmpty (field_value (b_content b)) then [] else [''content''])"

text \<open>\<open>PUT /api/posts/:id\<close> has sanitizers only: its validation never fails.\<close>

definition update_errors :: "body \<Rightarrow> string list" where
  "update_errors b = []"

section \<open>server-dev.js: the handlers over the in-memory store\<close>

text \<open>
  Each handler takes the store and returns the response with the store after it. The
  validators of the route run first, and their sanitizers replace the fields of the body
  (the email by its normalized form, name, title and content by their trimmed forms)
  before the handler reads them. The two \<open>new Date()\<close> of a new post read the same
  clock value \<open>now\<close>. The library calls are total functions here, so the \<open>catch\<close>
  blocks of server-dev.js, which answer 500, are never entered.
\<close>

definition mem_register ::
  "lib \<Rightarrow> config \<Rightarrow> nat \<Rightarrow> string \<Rightarrow> dataStore \<Rightarrow> body \<Rightarrow> response \<times> dataStore" where
  "mem_register L cfg now salt st b =
     (let errors = register_errors L b in
      if errors \<noteq> [] then (ValidationError errors, st)
      else
        let email = normalizeEmail L (field_value (b_email b));
            password = field_value (b_password b);
            name = trim (field_value (b_name b))
        in (case find (\<lambda>u. u_email u = email) (users st) of
              Some userExists \<Rightarrow> (Conflict, st)
            | None \<Rightarrow>
                let hashedPassword = bcrypt_hash L password 10 salt;
                    newUser = \<lparr>u_id = nextUserId st, u_email = email,
                               u_password = hashedPassword, u_name = name,
                               u_created_at = now\<rparr>;
                    st' = st\<lparr>users := users st @ [newUser],
                             nextUserId := nextUserId st + 1\<rparr>;
                    token = jwt_sign L \<lparr>tp_id = u_id newUser, tp_email = u_email newUser\<rparr>
                              (jwt_secret cfg) expiresIn now
                in ((201, Registered (u_id newUser) (u_email newUser) (u_name newUser)
                            (u_created_at newUser) token), st')))"

definition mem_login ::
  "lib \<Rightarrow> config \<Rightarrow> nat \<Rightarrow> dataStore \<Rightarrow> body \<Rightarrow> response \<times> dataStore" where
  "mem_login L cfg now st b =
     (let errors = login_errors L b in
      if errors \<noteq> [] then (ValidationError errors, st)
      else
        let email = normalizeEmail L (field_value (b_email b));
            password = field_value (b_password b)
        in (case find (\<lambda>u. u_email u = email) (users st) of
              None \<Rightarrow> (InvalidCredentials, st)
            | Some user \<Rightarrow>
                if \<not> bcrypt_compare L password (u_password user)
                then (InvalidCredentials, st)
                else
                  let token = jwt_sign L \<lparr>tp_id = u_id user, tp_email = u_email user\<rparr>
                                (jwt_secret cfg) expiresIn now
                  in ((200, LoggedIn (u_id user) (u_email user) (u_name user) token), st)))"

definition mem_profile :: "dataStore \<Rightarrow> token_payload \<Rightarrow> response \<times> dataStore" where
  "mem_profile st req_user =
     (case find (\<lambda>u. u_id u = tp_id req_user) (users st) of
        None \<Rightarrow> (UserNotFound, st)
      | Some user \<Rightarrow>
          ((200, Profile (u_id user) (u_email user) (u_name user) (u_created_at user)), st))"

text \<open>
  \<open>posts.map(...)\<close> with the placeholder author, then
  \<open>.sort((a, b) => new Date(b.created_at) - new Date(a.created_at))\<close>: a stable sort,
  newest first.
\<close>

definition with_author :: "user list \<Rightarrow> post \<Rightarrow> listed_post" where
  "with_author us p =
     (case find (\<lambda>u. u_id u = p_user_id p) us of
        Some author \<Rightarrow>
          \<lparr>lp_post = p, author_name = u_name author, author_email = u_email author\<rparr>
      | None \<Rightarrow>
          \<lparr>lp_post = p, author_name = ''Unknown'', author_email = ''unknown@example.com''\<rparr>)"

definition newest_first :: "listed_post list \<Rightarrow> listed_post list" where
  "newest_first rows = sort_key (\<lambda>r. - int (p_created_at (lp_post r))) rows"

definition mem_listPosts :: "dataStore \<Rightarrow> response \<times> dataStore" where
  "mem_listPosts st = ((200, Posts (newest_first (map (with_author (users st)) (posts st)))), st)"

definition mem_createPost ::
  "nat \<Rightarrow> dataStore \<Rightarrow> token_payload \<Rightarrow> body \<Rightarrow> response \<times> dataStore" where
  "mem_createPost now st req_user b =
     (let errors = post_errors b in
      if errors \<noteq> [] then (ValidationError errors, st)
      else
        let title = trim (field_value (b_title b));
            content = trim (field_value (b_content b));
            newPost = \<lparr>p_id = nextPostId st, p_title = title, p_content = content,
                       p_user_id = tp_id req_user, p_created_at = now, p_updated_at = now\<rparr>
        in ((201, PostCreated newPost),
            st\<lparr>posts := posts st @ [newPost], nextPostId := nextPostId st + 1\<rparr>))"

text \<open>
  \<open>if (title) post.title = title; if (content) post.content = content;
  post.updated_at = new Date().toISOString()\<close>; server.js builds the same assignments
  into its UPDATE statement.
\<close>

definition set_fields :: "string option \<Rightarrow> string option \<Rightarrow> nat \<Rightarrow> post \<Rightarrow> post" where
  "set_fields title content now p =
     (let p1 = (if truthy title then p\<lparr>p_title := the title\<rparr> else p);
          p2 = (if truthy content then p1\<lparr>p_content := the content\<rparr> else p1)
      in p2\<lparr>p_updated_at := now\<rparr>)"

definition mem_updatePost ::
  "lib \<Rightarrow> nat \<Rightarrow> dataStore \<Rightarrow> token_payload \<Rightarrow> string \<Rightarrow> body \<Rightarrow> response \<times> dataStore" where
  "mem_updatePost L now st req_user id_param b =
     (let errors = update_errors b in
      if errors \<noteq> [] then (ValidationError errors, st)
      else
        let postId = parseInt L id_param;
            title = optional_trim (b_title b);
            content = optional_trim (b_content b)
        in (case findIndex (id_is postId) (posts st) of
              None \<Rightarrow> (NotFound, st)
            | Some postIndex \<Rightarrow>
                let post = posts st ! postIndex in
                if p_user_id post \<noteq> tp_id req_user then (ForbiddenEdit, st)
                else
                  let post' = set_fields title content now post
                  in ((200, PostUpdated post'), st\<lparr>posts := (posts st)[postIndex := post']\<rparr>)))"

definition mem_deletePost ::
  "lib \<Rightarrow> dataStore \<Rightarrow> token_payload \<Rightarrow> string \<Rightarrow> response \<times> dataStore" where
  "mem_deletePost L st req_user id_param =
     (let postId = parseInt L id_param
      in (case findIndex (id_is postId) (posts st) of
            None \<Rightarrow> (NotFound, st)
          | Some postIndex \<Rightarrow>
              let post = posts st ! postIndex in
              if p_user_id post \<noteq> tp_id req_user then (ForbiddenDelete, st)
              else ((200, Message ''Post deleted successfully''),
                    st\<lparr>posts := splice1 postIndex (posts st)\<rparr>)))"

section \<open>Requests and runs\<close>

text \<open>
  A request of the routes the two servers share (the health and documentation routes
  read and write no store and are left out). The protected ones carry the
  \<open>Authorization\<close> header; update and delete carry the \<open>:id\<close> path segment as text.
  Each request comes with the clock reading and the salt drawn while it is handled.
\<close>

datatype request =
    Register body
  | Login body
  | GetProfile "string option"
  | ListPosts
  | CreatePost "string option" body
  | UpdatePost "string option" string body
  | DeletePost "string option" string

record event =
  ev_now :: nat
  ev_salt :: string
  ev_request :: request

definition mem_handle ::
  "lib \<Rightarrow> config \<Rightarrow> dataStore \<Rightarrow> event \<Rightarrow> response \<times> dataStore" where
  "mem_handle L cfg st ev =
     (let now = ev_now ev in
      case ev_request ev of
        Register b \<Rightarrow> mem_register L cfg now (ev_salt ev) st b
      | Login b \<Rightarrow> mem_login L cfg now st b
      | GetProfile h \<Rightarrow> protected L cfg now h st (\<lambda>user. mem_profile st user)
      | ListPosts \<Rightarrow> mem_listPosts st
      | CreatePost h b \<Rightarrow> protected L cfg now h st (\<lambda>user. mem_createPost now st user b)
      | UpdatePost h i b \<Rightarrow> protected L cfg now h st (\<lambda>user. mem_updatePost L now st user i b)
      | DeletePost h i \<Rightarrow> protected L cfg now h st (\<lambda>user. mem_deletePost L st user i))"


section \<open>server.js: the handlers over the relational store\<close>

text \<open>
  The tables of init.sql. \<open>users\<close> has the columns of the in-memory user and
  \<open>updated_at\<close>; \<open>posts\<close> has the fields of the in-memory post. A SERIAL column draws its
  value from a sequence: \<open>users_id_seq\<close> and \<open>posts_id_seq\<close> hold the last value drawn
  (0 before the first).
\<close>

record user_row = user +
  ur_updated_at :: nat

record database =
  users_tbl :: "user_row list"
  posts_tbl :: "post list"
  users_id_seq :: int
  posts_id_seq :: int

definition emptyDb :: database where
  "emptyDb = \<lparr>users_tbl = [], posts_tbl = [], users_id_seq = 0, posts_id_seq = 0\<rparr>"

text \<open>\<open>VARCHAR(255)\<close>: a longer value is rejected. (The server would cut excess trailing
  spaces instead, but the names and titles written are trimmed.)\<close>

definition varchar255 :: "string \<Rightarrow> bool" where
  "varchar255 s = (length s \<le> 255)"

text \<open>
  Each statement of server.js as a function of the tables. A statement the server
  rejects gives \<open>None\<close>; the handler's \<open>catch\<close> answers 500. A sequence value drawn by a
  rejected INSERT is not given back. Rejections for reasons outside the schema (a lost
  connection) are not modelled.

  \<open>INSERT INTO users (email, password, name, created_at) VALUES ($1, $2, $3, NOW())
  RETURNING id, email, name, created_at\<close>, under \<open>PRIMARY KEY (id)\<close>, \<open>UNIQUE (email)\<close> and
  the column widths.
\<close>

definition insert_user ::
  "database \<Rightarrow> string \<Rightarrow> string \<Rightarrow> string \<Rightarrow> nat \<Rightarrow> user_row option \<times> database" where
  "insert_user db email password name now =
     (let new_id = users_id_seq db + 1;
          db1 = db\<lparr>users_id_seq := new_id\<rparr>;
          row = \<lparr>u_id = new_id, u_email = email, u_password = password, u_name = name,
                 u_created_at = now, ur_updated_at = now\<rparr>
      in if \<not> (varchar255 email \<and> varchar255 password \<and> varchar255 name) then (None, db1)
         else if new_id \<in> set (map u_id (users_tbl db)) then (None, db1)
         else if email \<in> set (map u_email (users_tbl db)) then (None, db1)
         else (Some row, db1\<lparr>users_tbl := users_tbl db @ [row]\<rparr>))"

text \<open>\<open>SELECT ... FROM users WHERE email = $1\<close> and \<open>... WHERE id = $1\<close>.\<close>

definition select_users_by_email :: "database \<Rightarrow> string \<Rightarrow> user_row list" where
  "select_users_by_email db email = filter (\<lambda>u. u_email u = email) (users_tbl db)"

definition select_users_by_id :: "database \<Rightarrow> int \<Rightarrow> user_row list" where
  "select_users_by_id db i = filter (\<lambda>u. u_id u = i) (users_tbl db)"

text \<open>
  \<open>SELECT p.*, u.name as author_name, u.email as author_email FROM posts p
  JOIN users u ON p.user_id = u.id ORDER BY p.created_at DESC\<close>. Rows of equal
  \<open>created_at\<close>, whose order SQL leaves open, are kept in table order.
\<close>

definition select_posts_join_users :: "database \<Rightarrow> listed_post list" where
  "select_posts_join_users db =
     newest_first
       (concat (map (\<lambda>p. map (\<lambda>u. \<lparr>lp_post = p, author_name = u_name u, author_email = u_email u\<rparr>)
                             (filter (\<lambda>u. p_user_id p = u_id u) (users_tbl db)))
                    (posts_tbl db)))"

text \<open>
  \<open>INSERT INTO posts (title, content, user_id, created_at, updated_at)
  VALUES ($1, $2, $3, NOW(), NOW()) RETURNING *\<close>, under \<open>PRIMARY KEY (id)\<close>, the width of
  \<open>title\<close> and \<open>FOREIGN KEY (user_id) REFERENCES users(id)\<close>.
\<close>

definition insert_post ::
  "database \<Rightarrow> string \<Rightarrow> string \<Rightarrow> int \<Rightarrow> nat \<Rightarrow> post option \<times> database" where
  "insert_post db title content user_id now =
     (let new_id = posts_id_seq db + 1;
          db1 = db\<lparr>posts_id_seq := new_id\<rparr>;
          row = \<lparr>p_id = new_id, p_title = title, p_content = content, p_user_id = user_id,
                 p_created_at = now, p_updated_at = now\<rparr>
      in if \<not> varchar255 title then (None, db1)
         else if new_id \<in> set (map p_id (posts_tbl db)) then (None, db1)
         else if user_id \<notin> set (map u_id (users_tbl db)) then (None, db1)
         else (Some row, db1\<lparr>posts_tbl := posts_tbl db @ [row]\<rparr>))"

text \<open>\<open>SELECT user_id FROM posts WHERE id = $1\<close>, with the path segment as \<open>$1\<close>: the
  server reads it as an integer, or rejects the statement.\<close>

definition select_posts_by_id :: "lib \<Rightarrow> database \<Rightarrow> string \<Rightarrow> post list option" where
  "select_posts_by_id L db id_param =
     (case int4in L id_param of
        None \<Rightarrow> None
      | Some n \<Rightarrow> Some (filter (\<lambda>p. p_id p = n) (posts_tbl db)))"

text \<open>
  \<open>UPDATE posts SET [title = $1,] [content = $2,] updated_at = NOW() WHERE id = $n
  RETURNING *\<close>: the new table and the rows returned.
\<close>

definition update_posts ::
  "lib \<Rightarrow> database \<Rightarrow> string \<Rightarrow> string option \<Rightarrow> string option \<Rightarrow> nat
     \<Rightarrow> (post list \<times> database) option" where
  "update_posts L db id_param title content now =
     (case int4in L id_param of
        None \<Rightarrow> None
      | Some n \<Rightarrow>
          if truthy title \<and> \<not> varchar255 (the title) then None
          else
            let tbl = map (\<lambda>p. if p_id p = n then set_fields title content now p else p)
                          (posts_tbl db)
            in Some (filter (\<lambda>p. p_id p = n) tbl, db\<lparr>posts_tbl := tbl\<rparr>))"

text \<open>\<open>DELETE FROM posts WHERE id = $1\<close>.\<close>

definition delete_posts :: "lib \<Rightarrow> database \<Rightarrow> string \<Rightarrow> database option" where
  "delete_posts L db id_param =
     (case int4in L id_param of
        None \<Rightarrow> None
      | Some n \<Rightarrow> Some (db\<lparr>posts_tbl := filter (\<lambda>p. p_id p \<noteq> n) (posts_tbl db)\<rparr>))"

definition db_register ::
  "lib \<Rightarrow> config \<Rightarrow> nat \<Rightarrow> string \<Rightarrow> database \<Rightarrow> body \<Rightarrow> response \<times> database" where
  "db_register L cfg now salt db b =
     (let errors = register_errors L b in
      if errors \<noteq> [] then (ValidationError errors, db)
      else
        let email = normalizeEmail L (field_value (b_email b));
            password = field_value (b_password b);
            name = trim (field_value (b_name b));
            userExists = select_users_by_email db email
        in if length userExists > 0 then (Conflict, db)
           else
             let hashedPassword = bcrypt_hash L password 10 salt
             in (case insert_user db email hashedPassword name now of
                   (None, db') \<Rightarrow> (Internal, db')
                 | (Some user, db') \<Rightarrow>
                     let token = jwt_sign L \<lparr>tp_id = u_id user, tp_email = u_email user\<rparr>
                                   (jwt_secret cfg) expiresIn now
                     in ((201, Registered (u_id user) (u_email user) (u_name user)
                                 (u_created_at user) token), db')))"

definition db_login ::
  "lib \<Rightarrow> config \<Rightarrow> nat \<Rightarrow> database \<Rightarrow> body \<Rightarrow> response \<times> database" where
  "db_login L cfg now db b =
     (let errors = login_errors L b in
      if errors \<noteq> [] then (ValidationError errors, db)
      else
        let email = normalizeEmail L (field_value (b_email b));
            password = field_value (b_password b)
        in (case select_users_by_email db email of
              [] \<Rightarrow> (InvalidCredentials, db)
            | user # _ \<Rightarrow>
                if \<not> bcrypt_compare L password (u_password user)
                then (InvalidCredentials, db)
                else
                  let token = jwt_sign L \<lparr>tp_id = u_id user, tp_email = u_email user\<rparr>
                                (jwt_secret cfg) expiresIn now
                  in ((200, LoggedIn (u_id user) (u_email user) (u_name user) token), db)))"

definition db_profile :: "database \<Rightarrow> token_payload \<Rightarrow> response \<times> database" where
  "db_profile db req_user =
     (case select_users_by_id db (tp_id req_user) of
        [] \<Rightarrow> (UserNotFound, db)
      | user # _ \<Rightarrow>
          ((200, Profile (u_id user) (u_email user) (u_name user) (u_created_at user)), db))"

definition db_listPosts :: "database \<Rightarrow> response \<times> database" where
  "db_listPosts db = ((200, Posts (select_posts_join_users db)), db)"

definition db_createPost ::
  "nat \<Rightarrow> database \<Rightarrow> token_payload \<Rightarrow> body \<Rightarrow> response \<times> database" where
  "db_createPost now db req_user b =
     (let errors = post_errors b in
      if errors \<noteq> [] then (ValidationError errors, db)
      else
        let title = trim (field_value (b_title b));
            content = trim (field_value (b_content b))
        in (case insert_post db title content (tp_id req_user) now of
              (None, db') \<Rightarrow> (Internal, db')
            | (Some row, db') \<Rightarrow> ((201, PostCreated row), db')))"

text \<open>\<open>post: result.rows[0]\<close>: were no row returned, the key would be left out of the JSON.\<close>

definition db_updatePost ::
  "lib \<Rightarrow> nat \<Rightarrow> database \<Rightarrow> token_payload \<Rightarrow> string \<Rightarrow> body \<Rightarrow> response \<times> database" where
  "db_updatePost L now db req_user id_param b =
     (let errors = update_errors b in
      if errors \<noteq> [] then (ValidationError errors, db)
      else
        let title = optional_trim (b_title b);
            content = optional_trim (b_content b)
        in (case select_posts_by_id L db id_param of
              None \<Rightarrow> (Internal, db)
            | Some [] \<Rightarrow> (NotFound, db)
            | Some (postCheck # _) \<Rightarrow>
                if p_user_id postCheck \<noteq> tp_id req_user then (ForbiddenEdit, db)
                else (case update_posts L db id_param title content now of
                        None \<Rightarrow> (Internal, db)
                      | Some ([], db') \<Rightarrow> ((200, Message ''Post updated successfully''), db')
                      | Some (row # _, db') \<Rightarrow> ((200, PostUpdated row), db'))))"

definition db_deletePost ::
  "lib \<Rightarrow> database \<Rightarrow> token_payload \<Rightarrow> string \<Rightarrow> response \<times> database" where
  "db_deletePost L db req_user id_param =
     (case select_posts_by_id L db id_param of
        None \<Rightarrow> (Internal, db)
      | Some [] \<Rightarrow> (NotFound, db)
      | Some (postCheck # _) \<Rightarrow>
          if p_user_id postCheck \<noteq> tp_id req_user then (ForbiddenDelete, db)
          else (case delete_posts L db id_param of
                  None \<Rightarrow> (Internal, db)
                | Some db' \<Rightarrow> ((200, Message ''Post deleted successfully''), db')))"

definition db_handle ::
  "lib \<Rightarrow> config \<Rightarrow> database \<Rightarrow> event \<Rightarrow> response \<times> database" where
  "db_handle L cfg db ev =
     (let now = ev_now ev in
      case ev_request ev of
        Register b \<Rightarrow> db_register L cfg now (ev_salt ev) db b
      | Login b \<Rightarrow> db_login L cfg now db b
      | GetProfile h \<Rightarrow> protected L cfg now h db (\<lambda>user. db_profile db user)
      | ListPosts \<Rightarrow> db_listPosts db
      | CreatePost h b \<Rightarrow> protected L cfg now h db (\<lambda>user. db_createPost now db user b)
      | UpdatePost h i b \<Rightarrow> protected L cfg now h db (\<lambda>user. db_updatePost L now db user i b)
      | DeletePost h i \<Rightarrow> protected L cfg now h db (\<lambda>user. db_deletePost L db user i))"

fun db_run ::
  "lib \<Rightarrow> config \<Rightarrow> database \<Rightarrow> event list \<Rightarrow> response list \<times> database" where
  "db_run L cfg db [] = ([], db)"
| "db_run L cfg db (ev # evs) =
     (let (r, db') = db_handle L cfg db ev;
          (rs, db'') = db_run L cfg db' evs
      in (r # rs, db''))"

section \<open>A reference instance of the libraries\<close>

text \<open>
  To run the model on concrete requests, the library parameters need values. The
  instance below is small and executable, and stands for the real libraries only in
  the evaluations that name it: an address is well formed when it has an \<open>@\<close> and no
  white space, normalisation puts it in lower case, a hash is the reversed password
  before \<open>$\<close> and the salt, a token is the text \<open>id.exp.mac.email\<close> with the expiry in
  seconds and a checksum keyed by the secret, \<open>parseInt\<close> reads an optional sign and the leading decimal digits, and the
  database's integer input accepts an optional sign and decimal digits between white
  space, within 32 bits.
\<close>

definition to_lower :: "char \<Rightarrow> char" where
  "to_lower c =
     (case map_of (zip ''ABCDEFGHIJKLMNOPQRSTUVWXYZ'' ''abcdefghijklmnopqrstuvwxyz'') c of
        None \<Rightarrow> c
      | Some l \<Rightarrow> l)"

definition is_digit :: "char \<Rightarrow> bool" where
  "is_digit c = (c \<in> set ''0123456789'')"

definition digit_char :: "nat \<Rightarrow> char" where
  "digit_char d = ''0123456789'' ! d"

definition digit_value :: "char \<Rightarrow> nat" where
  "digit_value c = (case map_of (zip ''0123456789'' [0, 1, 2, 3, 4, 5, 6, 7, 8, 9]) c of
                      None \<Rightarrow> 0
                    | Some d \<Rightarrow> d)"

fun dec :: "nat \<Rightarrow> string" where
  "dec n = (if n < 10 then [digit_char n] else dec (n div 10) @ [digit_char (n mod 10)])"

definition undec :: "string \<Rightarrow> nat" where
  "undec s = foldl (\<lambda>a c. 10 * a + digit_value c) 0 s"

fun join_dots :: "string list \<Rightarrow> string" where
  "join_dots [] = []"
| "join_dots [w] = w"
| "join_dots (w # ws) = w @ ''.'' @ join_dots ws"

definition ref_isEmail :: "string \<Rightarrow> bool" where
  "ref_isEmail s = (CHR ''@'' \<in> set s \<and> \<not> list_ex is_space s)"

definition ref_normalizeEmail :: "string \<Rightarrow> string" where
  "ref_normalizeEmail s = map to_lower s"

definition ref_bcrypt_hash :: "string \<Rightarrow> nat \<Rightarrow> string \<Rightarrow> string" where
  "ref_bcrypt_hash password rounds salt = rev password @ ''$'' @ salt"

definition ref_bcrypt_compare :: "string \<Rightarrow> string \<Rightarrow> bool" where
  "ref_bcrypt_compare password h = (takeWhile (\<lambda>c. c \<noteq> CHR ''$'') h = rev password)"

definition ref_mac :: "string \<Rightarrow> token_payload \<Rightarrow> nat \<Rightarrow> nat" where
  "ref_mac secret p exp_s =
     (nat (tp_id p) * 7 + exp_s * 13 + length (tp_email p) * 17) * (length secret + 1)"

definition ref_jwt_encode :: "token_payload \<Rightarrow> nat \<Rightarrow> string \<Rightarrow> string" where
  "ref_jwt_encode p exp_s secret =
     dec (nat (tp_id p)) @ ''.'' @ dec exp_s @ ''.'' @ dec (ref_mac secret p exp_s) @ ''.'' @
     tp_email p"

definition ref_jwt_sign :: "token_payload \<Rightarrow> string \<Rightarrow> nat \<Rightarrow> nat \<Rightarrow> string" where
  "ref_jwt_sign p secret ttl now = ref_jwt_encode p (now div 1000 + ttl) secret"

definition ref_jwt_verify :: "string \<Rightarrow> string \<Rightarrow> nat \<Rightarrow> token_payload option" where
  "ref_jwt_verify token secret now =
     (case split CHR ''.'' token of
        a # e # s # rest \<Rightarrow>
          let p = \<lparr>tp_id = int (undec a), tp_email = join_dots rest\<rparr>
          in if ref_jwt_encode p (undec e) secret = token \<and> now div 1000 < undec e
             then Some p else None
      | _ \<Rightarrow> None)"

definition signed_digits :: "string \<Rightarrow> bool \<times> string" where
  "signed_digits s =
     (case s of
        [] \<Rightarrow> (False, [])
      | c # r \<Rightarrow> if c = CHR ''-'' then (True, r) else if c = CHR ''+'' then (False, r) else (False, s))"

definition ref_parseInt :: "string \<Rightarrow> int option" where
  "ref_parseInt s =
     (let (neg, r) = signed_digits (dropWhile is_space s);
          ds = takeWhile is_digit r
      in if ds = [] then None
         else Some (if neg then - int (undec ds) else int (undec ds)))"

definition ref_int4in :: "string \<Rightarrow> int option" where
  "ref_int4in s =
     (let (neg, r) = signed_digits (trim s);
          v = (if neg then - int (undec r) else int (undec r))
      in if r \<noteq> [] \<and> list_all is_digit r \<and> - 2147483648 \<le> v \<and> v \<le> 2147483647
         then Some v else None)"

definition ref_lib :: lib where
  "ref_lib =
     \<lparr>isEmail = ref_isEmail, normalizeEmail = ref_normalizeEmail,
      bcrypt_hash = ref_bcrypt_hash, bcrypt_compare = ref_bcrypt_compare,
      jwt_sign = ref_jwt_sign, jwt_verify = ref_jwt_verify,
      parseInt = ref_parseInt, int4in = ref_int4in\<rparr>"

definition ref_config :: config where
  "ref_config = \<lparr>JWT_SECRET = None\<rparr>"

section \<open>Example stores\<close>

text \<open>
  Two registered users, Alice (id 1) and Bob (id 2), and one post of Alice's, in the
  in-memory store and in the tables; and the payloads of their tokens.
\<close>

definition example_post :: post where
  "example_post = \<lparr>p_id = 1, p_title = ''Hi'', p_content = ''World'', p_user_id = 1,
                    p_created_at = 10, p_updated_at = 10\<rparr>"

definition example_store :: dataStore where
  "example_store =
     \<lparr>users = [\<lparr>u_id = 1, u_email = ''alice@example.com'', u_password = ''1terces$s'',
                 u_name = ''Alice'', u_created_at = 5\<rparr>,
               \<lparr>u_id = 2, u_email = ''bob@example.com'', u_password = ''2terces$s'',
                 u_name = ''Bob'', u_created_at = 6\<rparr>],
      posts = [example_post], nextUserId = 3, nextPostId = 2\<rparr>"

definition example_db :: database where
  "example_db =
     \<lparr>users_tbl = [\<lparr>u_id = 1, u_email = ''alice@example.com'', u_password = ''1terces$s'',
                     u_name = ''Alice'', u_created_at = 5, ur_updated_at = 5\<rparr>,
                   \<lparr>u_id = 2, u_email = ''bob@example.com'', u_password = ''2terces$s'',
                     u_name = ''Bob'', u_created_at = 6, ur_updated_at = 6\<rparr>],
      posts_tbl = [example_post], users_id_seq = 2, posts_id_seq = 1\<rparr>"

definition alice :: token_payload where
  "alice = \<lparr>tp_id = 1, tp_email = ''alice@example.com''\<rparr>"

definition bob :: token_payload where
  "bob = \<lparr>tp_id = 2, tp_email = ''bob@example.com''\<rparr>"

text \<open>Their \<open>Authorization\<close> headers, with tokens of the reference instance signed at
  1500 ms under the default secret.\<close>

definition bob_header :: "string option" where
  "bob_header = Some ''Bearer 2.86401.17975712.bob@example.com''"

definition alice_header :: "string option" where
  "alice_header = Some ''Bearer 1.86401.17976144.alice@example.com''"

text \<open>A registration whose name has 256 characters.\<close>

definition long_name :: string where
  "long_name = replicate 256 CHR ''a''"


text \<open>A token of the reference instance for a user id 7 that no store holds, and a request
  sequence that uses it on the empty stores.\<close>

definition ghost_header :: "string option" where
  "ghost_header = Some ''Bearer 7.86401.17976816.ghost@example.com''"

definition ghost_post :: post where
  "ghost_post = \<lparr>p_id = 1, p_title = ''Hi'', p_content = ''World'', p_user_id = 7,
                  p_created_at = 2000, p_updated_at = 2000\<rparr>"

definition ghost_run :: "event list" where
  "ghost_run =
     [\<lparr>ev_now = 2000, ev_salt = [], ev_request =
         CreatePost ghost_header (no_body\<lparr>b_title := Some ''Hi'', b_content := Some ''World''\<rparr>)\<rparr>,
      \<lparr>ev_now = 3000, ev_salt = [], ev_request = ListPosts\<rparr>]"

text \<open>A session on the empty stores: Alice registers, creates a post, Bob tries to edit it,
  Alice edits it, the posts are listed, Alice deletes it, the posts are listed.\<close>

definition example_run :: "event list" where
  "example_run =
     [\<lparr>ev_now = 1500, ev_salt = ''s'', ev_request =
         Register (no_body\<lparr>b_email := Some ''Alice@Example.com'', b_password := Some ''secret1'',
                           b_name := Some ''Alice''\<rparr>)\<rparr>,
      \<lparr>ev_now = 2000, ev_salt = [], ev_request =
         CreatePost alice_header (no_body\<lparr>b_title := Some ''Hi'', b_content := Some ''World''\<rparr>)\<rparr>,
      \<lparr>ev_now = 3000, ev_salt = [], ev_request =
         UpdatePost bob_header ''1'' (no_body\<lparr>b_title := Some ''Mine''\<rparr>)\<rparr>,
      \<lparr>ev_now = 4000, ev_salt = [], ev_request =
         UpdatePost alice_header ''1'' (no_body\<lparr>b_title := Some '' Hello ''\<rparr>)\<rparr>,
      \<lparr>ev_now = 5000, ev_salt = [], ev_request = ListPosts\<rparr>,
      \<lparr>ev_now = 6000, ev_salt = [], ev_request = DeletePost alice_header ''1''\<rparr>,
      \<lparr>ev_now = 7000, ev_salt = [], ev_request = ListPosts\<rparr>]"

text \<open>Stores with three posts, one by an author that is not stored (in-memory store only).\<close>

definition bob_post :: post where
  "bob_post = \<lparr>p_id = 3, p_title = ''Yo'', p_content = ''There'', p_user_id = 2,
                p_created_at = 30, p_updated_at = 30\<rparr>"

definition orphan_post :: post where
  "orphan_post = \<lparr>p_id = 2, p_title = ''Old'', p_content = ''Token'', p_user_id = 7,
                   p_created_at = 20, p_updated_at = 20\<rparr>"

definition listing_store :: dataStore where
  "listing_store = example_store\<lparr>posts := [example_post, orphan_post, bob_post], nextPostId := 4\<rparr>"

definition listing_db :: database where
  "listing_db = example_db\<lparr>posts_tbl := [example_post, bob_post], posts_id_seq := 3\<rparr>"

section \<open>Vocabulary of the statements\<close>


text \<open>Newest first: \<open>created_at\<close> never increases along the rows.\<close>

definition newest_first_order :: "listed_post list \<Rightarrow> bool" where
  "newest_first_order rows \<longleftrightarrow>
     sorted_wrt (\<lambda>a b. p_created_at (lp_post b) \<le> p_created_at (lp_post a)) rows"

text \<open>The constraints of init.sql on the tables: \<open>PRIMARY KEY (id)\<close> of both tables,
  \<open>UNIQUE (email)\<close>, and \<open>FOREIGN KEY (user_id) REFERENCES users(id)\<close>.\<close>

definition db_constraints :: "database \<Rightarrow> bool" where
  "db_constraints db \<longleftrightarrow>
     distinct (map u_id (users_tbl db)) \<and>
     distinct (map u_email (users_tbl db)) \<and>
     distinct (map p_id (posts_tbl db)) \<and>
     (\<forall>p \<in> set (posts_tbl db). p_user_id p \<in> set (map u_id (users_tbl db)))"




text \<open>
  The in-memory store and the tables hold the same data: the same users (the row without
  \<open>updated_at\<close>), the same posts, and counters that will hand out the same next ids.
\<close>

definition as_user :: "user_row \<Rightarrow> user" where
  "as_user r = \<lparr>u_id = u_id r, u_email = u_email r, u_password = u_password r,
                u_name = u_name r, u_created_at = u_created_at r\<rparr>"






section \<open>Auxiliary lemmas\<close>

lemmas ref_defs = ref_lib_def ref_config_def ref_isEmail_def ref_normalizeEmail_def
  ref_bcrypt_hash_def ref_bcrypt_compare_def ref_jwt_sign_def ref_jwt_verify_def
  ref_jwt_encode_def ref_mac_def ref_parseInt_def ref_int4in_def signed_digits_def to_lower_def
  is_digit_def undec_def is_space_def digit_char_def digit_value_def jwt_secret_def
  expiresIn_def trim_def field_value_def isLength_min_def notEmpty_def optional_trim_def
  truthy_def

lemmas example_defs = example_post_def example_store_def example_db_def alice_def bob_def
  no_body_def

lemmas handler_defs = mem_handle_def db_handle_def protected_def authenticateToken_def
  header_token_def mem_register_def mem_login_def mem_profile_def mem_listPosts_def
  mem_createPost_def mem_updatePost_def mem_deletePost_def db_register_def db_login_def
  db_profile_def db_listPosts_def db_createPost_def db_updatePost_def db_deletePost_def
  insert_user_def insert_post_def select_users_by_email_def select_users_by_id_def
  select_posts_join_users_def select_posts_by_id_def update_posts_def delete_posts_def
  register_errors_def login_errors_def post_errors_def update_errors_def with_author_def
  newest_first_def set_fields_def splice1_def id_is_def varchar255_def emptyStore_def
  emptyDb_def Let_def

lemmas run_defs = ghost_header_def ghost_post_def ghost_run_def example_run_def bob_post_def
  orphan_post_def listing_store_def listing_db_def alice_header_def bob_header_def





lemma findIndex_None_find: "findIndex P xs = None \<longleftrightarrow> find P xs = None"
  by (induction xs) auto


lemma find_filter_hd: "find P xs = Some y \<Longrightarrow> \<exists>ys. filter P xs = y # ys"
  by (induction xs) (auto split: if_splits)

lemma set_fields_id [simp]: "p_id (set_fields t c now p) = p_id p"
  and set_fields_user [simp]: "p_user_id (set_fields t c now p) = p_user_id p"
  and set_fields_created [simp]: "p_created_at (set_fields t c now p) = p_created_at p"
  and set_fields_updated [simp]: "p_updated_at (set_fields t c now p) = now"
  by (simp_all add: set_fields_def Let_def)



text \<open>The update and delete handlers, branch by branch.\<close>

lemma mem_updatePost_cases:
  "mem_updatePost L now st actor i b =
     (case findIndex (id_is (parseInt L i)) (posts st) of
        None \<Rightarrow> (NotFound, st)
      | Some k \<Rightarrow>
          if p_user_id (posts st ! k) \<noteq> tp_id actor then (ForbiddenEdit, st)
          else ((200, PostUpdated (set_fields (optional_trim (b_title b))
                                     (optional_trim (b_content b)) now (posts st ! k))),
                st\<lparr>posts := (posts st)[k := set_fields (optional_trim (b_title b))
                                              (optional_trim (b_content b)) now (posts st ! k)]\<rparr>))"
  by (simp add: mem_updatePost_def update_errors_def Let_def split: option.splits)

lemma mem_deletePost_cases:
  "mem_deletePost L st actor i =
     (case findIndex (id_is (parseInt L i)) (posts st) of
        None \<Rightarrow> (NotFound, st)
      | Some k \<Rightarrow>
          if p_user_id (posts st ! k) \<noteq> tp_id actor then (ForbiddenDelete, st)
          else ((200, Message ''Post deleted successfully''),
                st\<lparr>posts := splice1 k (posts st)\<rparr>))"
  by (simp add: mem_deletePost_def Let_def split: option.splits)

lemma filter_map_set_fields:
  "filter (\<lambda>p. p_id p = n) (map (\<lambda>p. if p_id p = n then set_fields t c now p else p) xs)
     = map (set_fields t c now) (filter (\<lambda>p. p_id p = n) xs)"
  by (induction xs) auto

lemma db_updatePost_cases:
  assumes "int4in L i = Some n"
  shows "db_updatePost L now db actor i b =
     (case filter (\<lambda>p. p_id p = n) (posts_tbl db) of
        [] \<Rightarrow> (NotFound, db)
      | p # _ \<Rightarrow>
          if p_user_id p \<noteq> tp_id actor then (ForbiddenEdit, db)
          else if truthy (optional_trim (b_title b))
                  \<and> \<not> varchar255 (the (optional_trim (b_title b)))
          then (Internal, db)
          else ((200, PostUpdated (set_fields (optional_trim (b_title b))
                                     (optional_trim (b_content b)) now p)),
                db\<lparr>posts_tbl :=
                     map (\<lambda>q. if p_id q = n
                              then set_fields (optional_trim (b_title b))
                                     (optional_trim (b_content b)) now q
                              else q) (posts_tbl db)\<rparr>))"
proof (cases "filter (\<lambda>p. p_id p = n) (posts_tbl db)")
  case Nil
  with assms show ?thesis
    by (simp add: db_updatePost_def update_errors_def select_posts_by_id_def)
next
  case (Cons p ps)
  with assms show ?thesis
    by (simp add: db_updatePost_def update_errors_def select_posts_by_id_def update_posts_def
          Let_def filter_map_set_fields)
qed

lemma db_deletePost_cases:
  assumes "int4in L i = Some n"
  shows "db_deletePost L db actor i =
     (case filter (\<lambda>p. p_id p = n) (posts_tbl db) of
        [] \<Rightarrow> (NotFound, db)
      | p # _ \<Rightarrow>
          if p_user_id p \<noteq> tp_id actor then (ForbiddenDelete, db)
          else ((200, Message ''Post deleted successfully''),
                db\<lparr>posts_tbl := filter (\<lambda>q. p_id q \<noteq> n) (posts_tbl db)\<rparr>))"
  using assms
  by (simp add: db_deletePost_def select_posts_by_id_def delete_posts_def split: list.splits)

text \<open>A protected route whose token verifies runs its handler with the token's payload.\<close>

lemma protected_authenticated:
  "authenticateToken L cfg now h = Inr actor \<Longrightarrow> protected L cfg now h st handler = handler actor"
  by (simp add: protected_def)

lemma ref_headers:
  "authenticateToken ref_lib ref_config 20 bob_header = Inr bob"
  "authenticateToken ref_lib ref_config 20 alice_header = Inr alice"
  by (simp_all add: authenticateToken_def header_token_def bob_header_def alice_header_def
        ref_defs example_defs)




lemma select_users_empty: "select_users_by_email db e = [] \<longleftrightarrow> e \<notin> set (map u_email (users_tbl db))"
  by (auto simp: select_users_by_email_def filter_empty_conv)



lemma db_register_invalid:
  "register_errors L b \<noteq> [] \<Longrightarrow>
     db_register L cfg now salt db b = (ValidationError (register_errors L b), db)"
  by (simp add: db_register_def)


lemma db_register_valid:
  assumes "register_errors L b = []"
  shows "db_register L cfg now salt db b =
    (let email = normalizeEmail L (field_value (b_email b));
         name = trim (field_value (b_name b));
         hashed = bcrypt_hash L (field_value (b_password b)) 10 salt
     in if email \<in> set (map u_email (users_tbl db)) then (Conflict, db)
        else if varchar255 email \<and> varchar255 hashed \<and> varchar255 name \<and>
                users_id_seq db + 1 \<notin> set (map u_id (users_tbl db))
        then ((201, Registered (users_id_seq db + 1) email name now
                      (jwt_sign L \<lparr>tp_id = users_id_seq db + 1, tp_email = email\<rparr>
                         (jwt_secret cfg) expiresIn now)),
              db\<lparr>users_tbl := users_tbl db @ [\<lparr>u_id = users_id_seq db + 1, u_email = email,
                                                 u_password = hashed, u_name = name,
                                                 u_created_at = now, ur_updated_at = now\<rparr>],
                  users_id_seq := users_id_seq db + 1\<rparr>)
        else (Internal, db\<lparr>users_id_seq := users_id_seq db + 1\<rparr>))"
proof (cases "normalizeEmail L (field_value (b_email b)) \<in> set (map u_email (users_tbl db))")
  case True
  then have "select_users_by_email db (normalizeEmail L (field_value (b_email b))) \<noteq> []"
    by (simp add: select_users_empty)
  with True assms show ?thesis
    by (simp add: db_register_def)
next
  case False
  then have "select_users_by_email db (normalizeEmail L (field_value (b_email b))) = []"
    by (simp add: select_users_empty)
  with False assms show ?thesis
    by (auto simp: db_register_def insert_user_def Let_def)
qed











text \<open>Listing: sorting keeps the rows, and the join finds exactly one author per post.\<close>

lemma newest_first_mset: "mset (newest_first rows) = mset rows"
  by (simp add: newest_first_def)

lemma newest_first_set: "set (newest_first rows) = set rows"
  by (simp add: newest_first_def)

lemma newest_first_sorted: "newest_first_order (newest_first rows)"
proof -
  have "sorted (map (\<lambda>r. - int (p_created_at (lp_post r))) (newest_first rows))"
    by (simp add: newest_first_def)
  then show ?thesis
    by (simp add: newest_first_order_def sorted_map)
qed

lemma lp_post_with_author: "lp_post (with_author us p) = p"
  by (simp add: with_author_def split: option.splits)

lemma find_id_Some:
  "i \<in> set (map u_id us) \<Longrightarrow> \<exists>u. find (\<lambda>u. u_id u = i) us = Some u"
  by (cases "find (\<lambda>u. u_id u = i) us") (auto simp: find_None_iff)

lemma filter_unique_id:
  "distinct (map u_id us) \<Longrightarrow> i \<in> set (map u_id us) \<Longrightarrow>
     \<exists>u \<in> set us. u_id u = i \<and> filter (\<lambda>v. i = u_id v) us = [u]"
proof (induction us)
  case Nil
  then show ?case by simp
next
  case (Cons a us)
  show ?case
  proof (cases "u_id a = i")
    case True
    with Cons.prems(1) have "\<forall>v \<in> set us. u_id v \<noteq> i"
      by (auto simp: image_iff)
    then have "filter (\<lambda>v. i = u_id v) us = []"
      by (auto simp: filter_empty_conv)
    with True show ?thesis by auto
  next
    case False
    with Cons.prems have "distinct (map u_id us)" "i \<in> set (map u_id us)" by auto
    from Cons.IH[OF this] False show ?thesis by auto
  qed
qed

lemma join_rows:
  assumes "distinct (map u_id us)" "\<forall>p \<in> set ps. p_user_id p \<in> set (map u_id us)"
  shows "map lp_post
           (concat (map (\<lambda>p. map (\<lambda>u. \<lparr>lp_post = p, author_name = u_name u, author_email = u_email u\<rparr>)
                                 (filter (\<lambda>u. p_user_id p = u_id u) us)) ps)) = ps"
  using assms(2)
proof (induction ps)
  case Nil
  then show ?case by simp
next
  case (Cons p ps)
  from Cons.prems have "p_user_id p \<in> set (map u_id us)" by simp
  from filter_unique_id[OF assms(1) this] obtain u
    where "filter (\<lambda>v. p_user_id p = u_id v) us = [u]" by blast
  with Cons show ?case by simp
qed

lemma join_authors:
  "r \<in> set (concat (map (\<lambda>p. map (\<lambda>u. \<lparr>lp_post = p, author_name = u_name u, author_email = u_email u\<rparr>)
                                 (filter (\<lambda>u. p_user_id p = u_id u) us)) ps)) \<Longrightarrow>
     lp_post r \<in> set ps \<and>
     (\<exists>u \<in> set us. u_id u = p_user_id (lp_post r) \<and> author_name r = u_name u \<and> author_email r = u_email u)"
  by auto

text \<open>The tables keep the constraints of init.sql.\<close>

lemma db_register_constraints:
  "db_constraints db \<Longrightarrow> db_constraints (snd (db_register L cfg now salt db b))"
proof (cases "register_errors L b = []")
  case True
  assume "db_constraints db"
  with True show ?thesis
    by (auto simp: db_register_valid Let_def db_constraints_def)
next
  case False
  assume "db_constraints db"
  with False show ?thesis by (simp add: db_register_invalid)
qed

lemma db_createPost_constraints:
  "db_constraints db \<Longrightarrow> db_constraints (snd (db_createPost now db u b))"
  by (auto simp: db_createPost_def insert_post_def Let_def db_constraints_def)

lemma db_updatePost_constraints:
  assumes "db_constraints db"
  shows "db_constraints (snd (db_updatePost L now db u i b))"
proof (cases "int4in L i")
  case None
  with assms show ?thesis
    by (simp add: db_updatePost_def update_errors_def select_posts_by_id_def)
next
  case (Some n)
  have ids: "p_id \<circ> (\<lambda>q. if p_id q = n then set_fields t c now q else q) = p_id" for t c
    by (auto simp: fun_eq_iff)
  from assms show ?thesis
    by (auto simp: db_updatePost_cases[OF Some] db_constraints_def ids split: list.splits)
qed

lemma db_deletePost_constraints:
  assumes "db_constraints db"
  shows "db_constraints (snd (db_deletePost L db u i))"
proof (cases "int4in L i")
  case None
  with assms show ?thesis
    by (simp add: db_deletePost_def select_posts_by_id_def)
next
  case (Some n)
  from assms show ?thesis
    by (auto simp: db_deletePost_cases[OF Some] db_constraints_def distinct_map_filter
          split: list.splits)
qed

lemma protected_pred:
  "P st \<Longrightarrow> (\<And>u. P (snd (f u))) \<Longrightarrow> P (snd (protected L cfg now h st f))"
  by (simp add: protected_def split: sum.splits)

lemma db_handle_constraints:
  assumes "db_constraints db"
  shows "db_constraints (snd (db_handle L cfg db ev))"
proof (cases "ev_request ev")
  case (Register b)
  with assms show ?thesis by (simp add: db_handle_def Let_def db_register_constraints)
next
  case (Login b)
  with assms show ?thesis by (simp add: db_handle_def db_login_def Let_def split: list.splits)
next
  case (GetProfile h)
  with assms show ?thesis
    by (simp add: db_handle_def Let_def protected_pred db_profile_def split: list.splits)
next
  case ListPosts
  with assms show ?thesis by (simp add: db_handle_def db_listPosts_def)
next
  case (CreatePost h b)
  with assms show ?thesis
    by (simp add: db_handle_def Let_def protected_pred db_createPost_constraints)
next
  case (UpdatePost h i b)
  with assms show ?thesis
    by (simp add: db_handle_def Let_def protected_pred db_updatePost_constraints)
next
  case (DeletePost h i)
  with assms show ?thesis
    by (simp add: db_handle_def Let_def protected_pred db_deletePost_constraints)
qed

lemma db_run_constraints:
  "db_constraints db \<Longrightarrow> db_constraints (snd (db_run L cfg db evs))"
proof (induction evs arbitrary: db)
  case Nil
  then show ?case by simp
next
  case (Cons ev evs)
  from Cons.IH[OF db_handle_constraints[OF Cons.prems]] show ?case
    by (simp add: split_beta Let_def)
qed












text \<open>The two servers, handler by handler, on corresponding stores.\<close>

lemma as_user_sel [simp]:
  "u_id (as_user r) = u_id r" "u_email (as_user r) = u_email r"
  "u_password (as_user r) = u_password r" "u_name (as_user r) = u_name r"
  "u_created_at (as_user r) = u_created_at r"
  by (simp_all add: as_user_def)























section \<open>C1: email uniqueness\<close>



section \<open>C2: the existence and ownership checks of update and delete\<close>



section \<open>C3: the token middleware\<close>



section \<open>C4: login and InvalidCredentials\<close>



section \<open>C5: the partial update\<close>




section \<open>C6: the outcomes of a registration\<close>




section \<open>C7: listing the posts\<close>

text \<open>
  C7. \<open>listPosts\<close> answers 200 with one row for every stored post and no other row (the
  posts of the rows are the stored posts, as multisets), ordered by \<open>created_at\<close>
  descending. In server-dev.js each row carries the name and email of the user whose id
  is the post's \<open>user_id\<close>, and the placeholder \<open>Unknown\<close> / \<open>unknown@example.com\<close> when
  no such user is stored. In server.js the rows come from the join with \<open>users\<close>; under
  the constraints of init.sql, which hold in every state reached from the empty tables,
  every post has exactly one author row, so every post is listed once with its author.
\<close>

theorem listPosts_all_newest_first:
  "(\<exists>rows. mem_listPosts st = ((200, Posts rows), st) \<and>
      mset (map lp_post rows) = mset (posts st) \<and>
      newest_first_order rows \<and>
      (\<forall>r \<in> set rows.
         (case find (\<lambda>u. u_id u = p_user_id (lp_post r)) (users st) of
            Some author \<Rightarrow> author_name r = u_name author \<and> author_email r = u_email author
          | None \<Rightarrow> author_name r = ''Unknown'' \<and> author_email r = ''unknown@example.com''))) \<and>
   (db_constraints db \<longrightarrow>
      (\<exists>rows. db_listPosts db = ((200, Posts rows), db) \<and>
         mset (map lp_post rows) = mset (posts_tbl db) \<and>
         newest_first_order rows \<and>
         (\<forall>r \<in> set rows. \<exists>u \<in> set (users_tbl db).
            u_id u = p_user_id (lp_post r) \<and> author_name r = u_name u \<and> author_email r = u_email u))) \<and>
   db_constraints (snd (db_run L cfg emptyDb evs))"
proof -
  let ?mrows = "newest_first (map (with_author (users st)) (posts st))"
  have m1: "mset (map lp_post ?mrows) = mset (posts st)"
  proof -
    have "mset (map lp_post ?mrows) = image_mset lp_post (mset ?mrows)" by simp
    also have "\<dots> = image_mset lp_post (mset (map (with_author (users st)) (posts st)))"
      by (simp only: newest_first_mset)
    also have "\<dots> = mset (posts st)"
      by (simp add: image_mset.compositionality comp_def lp_post_with_author)
    finally show ?thesis .
  qed
  have m2: "case find (\<lambda>u. u_id u = p_user_id (lp_post r)) (users st) of
            Some author \<Rightarrow> author_name r = u_name author \<and> author_email r = u_email author
          | None \<Rightarrow> author_name r = ''Unknown'' \<and> author_email r = ''unknown@example.com''"
    if "r \<in> set ?mrows" for r
  proof -
    from that obtain p where "r = with_author (users st) p"
      by (auto simp: newest_first_set)
    then show ?thesis
      by (simp add: with_author_def split: option.splits)
  qed
  have mem: "\<exists>rows. mem_listPosts st = ((200, Posts rows), st) \<and>
      mset (map lp_post rows) = mset (posts st) \<and>
      newest_first_order rows \<and>
      (\<forall>r \<in> set rows.
         (case find (\<lambda>u. u_id u = p_user_id (lp_post r)) (users st) of
            Some author \<Rightarrow> author_name r = u_name author \<and> author_email r = u_email author
          | None \<Rightarrow> author_name r = ''Unknown'' \<and> author_email r = ''unknown@example.com''))"
    using m1 m2 newest_first_sorted[of "map (with_author (users st)) (posts st)"]
    by (intro exI[of _ ?mrows]) (simp add: mem_listPosts_def)
  let ?join = "concat (map (\<lambda>p. map (\<lambda>u. \<lparr>lp_post = p, author_name = u_name u, author_email = u_email u\<rparr>)
                                 (filter (\<lambda>u. p_user_id p = u_id u) (users_tbl db))) (posts_tbl db))"
  have dbl: "\<exists>rows. db_listPosts db = ((200, Posts rows), db) \<and>
         mset (map lp_post rows) = mset (posts_tbl db) \<and>
         newest_first_order rows \<and>
         (\<forall>r \<in> set rows. \<exists>u \<in> set (users_tbl db).
            u_id u = p_user_id (lp_post r) \<and> author_name r = u_name u \<and> author_email r = u_email u)"
    if c: "db_constraints db"
  proof -
    from c have j: "map lp_post ?join = posts_tbl db"
      by (intro join_rows) (simp_all add: db_constraints_def)
    have "mset (map lp_post (newest_first ?join)) = image_mset lp_post (mset (newest_first ?join))"
      by simp
    also have "\<dots> = image_mset lp_post (mset ?join)"
      by (simp only: newest_first_mset)
    also have "\<dots> = mset (map lp_post ?join)" by simp
    finally have d1: "mset (map lp_post (newest_first ?join)) = mset (posts_tbl db)"
      by (simp only: j)
    have d2: "\<exists>u \<in> set (users_tbl db).
            u_id u = p_user_id (lp_post r) \<and> author_name r = u_name u \<and> author_email r = u_email u"
      if "r \<in> set (newest_first ?join)" for r
      using join_authors[of r "users_tbl db" "posts_tbl db"] that
      by (simp only: newest_first_set)
    show ?thesis
      using d1 d2 newest_first_sorted[of ?join]
      by (intro exI[of _ "newest_first ?join"])
         (simp add: db_listPosts_def select_posts_join_users_def)
  qed
  have "db_constraints emptyDb"
    by (simp add: db_constraints_def emptyDb_def)
  from db_run_constraints[OF this] mem dbl show ?thesis by blast
qed

theorem listPosts_all_newest_first_witness:
  "mem_listPosts listing_store =
     ((200, Posts [\<lparr>lp_post = bob_post, author_name = ''Bob'', author_email = ''bob@example.com''\<rparr>,
                   \<lparr>lp_post = orphan_post, author_name = ''Unknown'',
                     author_email = ''unknown@example.com''\<rparr>,
                   \<lparr>lp_post = example_post, author_name = ''Alice'',
                     author_email = ''alice@example.com''\<rparr>]), listing_store) \<and>
   db_listPosts listing_db =
     ((200, Posts [\<lparr>lp_post = bob_post, author_name = ''Bob'', author_email = ''bob@example.com''\<rparr>,
                   \<lparr>lp_post = example_post, author_name = ''Alice'',
                     author_email = ''alice@example.com''\<rparr>]), listing_db) \<and>
   db_constraints listing_db"
proof -
  have c: "db_constraints listing_db"
    by (simp add: db_constraints_def run_defs example_defs)
  have m: "mem_listPosts listing_store =
     ((200, Posts [\<lparr>lp_post = bob_post, author_name = ''Bob'', author_email = ''bob@example.com''\<rparr>,
                   \<lparr>lp_post = orphan_post, author_name = ''Unknown'',
                     author_email = ''unknown@example.com''\<rparr>,
                   \<lparr>lp_post = example_post, author_name = ''Alice'',
                     author_email = ''alice@example.com''\<rparr>]), listing_store)"
    by (simp add: run_defs handler_defs example_defs)
  have d: "db_listPosts listing_db =
     ((200, Posts [\<lparr>lp_post = bob_post, author_name = ''Bob'', author_email = ''bob@example.com''\<rparr>,
                   \<lparr>lp_post = example_post, author_name = ''Alice'',
                     author_email = ''alice@example.com''\<rparr>]), listing_db)"
    by (simp add: run_defs handler_defs example_defs)
  from listPosts_all_newest_first[of listing_store listing_db ref_lib ref_config "[]"] c m d
  show ?thesis by simp
qed

section \<open>C8: the two servers compared\<close>




text \<open>Each condition is needed: where one fails, the servers answer differently.\<close>

lemma variants_differ_elsewhere:
  "fst (mem_updatePost ref_lib 20 example_store alice ''1abc'' no_body)
     = (200, PostUpdated (example_post\<lparr>p_updated_at := 20\<rparr>)) \<and>
   fst (db_updatePost ref_lib 20 example_db alice ''1abc'' no_body) = Internal \<and>
   fst (mem_deletePost ref_lib example_store alice ''x'') = NotFound \<and>
   fst (db_deletePost ref_lib example_db alice ''x'') = Internal \<and>
   fst (fst (mem_createPost 20 example_store alice
               (no_body\<lparr>b_title := Some long_name, b_content := Some ''c''\<rparr>))) = 201 \<and>
   fst (db_createPost 20 example_db alice
          (no_body\<lparr>b_title := Some long_name, b_content := Some ''c''\<rparr>)) = Internal"
  by (simp add: handler_defs ref_defs example_defs long_name_def)

section \<open>C9: an update that supplies nothing\<close>



section \<open>C10: a failing operation changes nothing\<close>

text \<open>
  C10. Whenever a route answers with an error outcome, that is 400 (ValidationError), 401
  (InvalidCredentials, MissingToken), 403 (InvalidToken, Forbidden), 404 (NotFound) or
  409 (Conflict), the store after the request is the store before it: users, posts and
  id counters (the tables and their sequences in server.js). The statement is about
  every route of \<open>mem_handle\<close> and \<open>db_handle\<close>, token middleware included.
\<close>

theorem failures_change_nothing:
  "(fst (fst (mem_handle L cfg st ev)) \<in> {400, 401, 403, 404, 409} \<longrightarrow>
      snd (mem_handle L cfg st ev) = st) \<and>
   (fst (fst (db_handle L cfg db ev)) \<in> {400, 401, 403, 404, 409} \<longrightarrow>
      snd (db_handle L cfg db ev) = db)"
proof -
  have prot: "fst (fst (protected L cfg now h s f)) \<in> {400, 401, 403, 404, 409} \<longrightarrow>
      snd (protected L cfg now h s f) = s"
    if "\<And>u. fst (fst (f u)) \<in> {400, 401, 403, 404, 409} \<longrightarrow> snd (f u) = s"
    for now h and s :: 's and f
    using that by (simp add: protected_def split: sum.splits)
  have m_reg: "fst (fst (mem_register L cfg now salt st b)) \<in> {400, 401, 403, 404, 409} \<longrightarrow>
      snd (mem_register L cfg now salt st b) = st" for now salt b
    by (simp add: mem_register_def Let_def split: option.splits)
  have m_login: "snd (mem_login L cfg now st b) = st" for now b
    by (simp add: mem_login_def Let_def split: option.splits)
  have m_prof: "snd (mem_profile st u) = st" for u
    by (simp add: mem_profile_def split: option.splits)
  have m_create: "fst (fst (mem_createPost now st u b)) \<in> {400, 401, 403, 404, 409} \<longrightarrow>
      snd (mem_createPost now st u b) = st" for now u b
    by (simp add: mem_createPost_def Let_def)
  have m_upd: "fst (fst (mem_updatePost L now st u i b)) \<in> {400, 401, 403, 404, 409} \<longrightarrow>
      snd (mem_updatePost L now st u i b) = st" for now u i b
    by (simp add: mem_updatePost_cases split: option.splits)
  have m_del: "fst (fst (mem_deletePost L st u i)) \<in> {400, 401, 403, 404, 409} \<longrightarrow>
      snd (mem_deletePost L st u i) = st" for u i
    by (simp add: mem_deletePost_cases split: option.splits)
  have mem: "fst (fst (mem_handle L cfg st ev)) \<in> {400, 401, 403, 404, 409} \<longrightarrow>
      snd (mem_handle L cfg st ev) = st"
  proof (cases "ev_request ev")
    case (Register b) then show ?thesis using m_reg by (simp add: mem_handle_def Let_def)
  next
    case (Login b) then show ?thesis using m_login by (simp add: mem_handle_def Let_def)
  next
    case (GetProfile h) then show ?thesis
      using prot[of "\<lambda>u. mem_profile st u" st] m_prof by (simp add: mem_handle_def Let_def)
  next
    case ListPosts then show ?thesis by (simp add: mem_handle_def mem_listPosts_def)
  next
    case (CreatePost h b) then show ?thesis
      using prot[of "\<lambda>u. mem_createPost (ev_now ev) st u b" st] m_create
      by (simp add: mem_handle_def Let_def)
  next
    case (UpdatePost h i b) then show ?thesis
      using prot[of "\<lambda>u. mem_updatePost L (ev_now ev) st u i b" st] m_upd
      by (simp add: mem_handle_def Let_def)
  next
    case (DeletePost h i) then show ?thesis
      using prot[of "\<lambda>u. mem_deletePost L st u i" st] m_del
      by (simp add: mem_handle_def Let_def)
  qed
  have d_reg: "fst (fst (db_register L cfg now salt db b)) \<in> {400, 401, 403, 404, 409} \<longrightarrow>
      snd (db_register L cfg now salt db b) = db" for now salt b
    by (simp add: db_register_def Let_def split: prod.splits option.splits)
  have d_login: "snd (db_login L cfg now db b) = db" for now b
    by (simp add: db_login_def Let_def split: list.splits)
  have d_prof: "snd (db_profile db u) = db" for u
    by (simp add: db_profile_def split: list.splits)
  have d_create: "fst (fst (db_createPost now db u b)) \<in> {400, 401, 403, 404, 409} \<longrightarrow>
      snd (db_createPost now db u b) = db" for now u b
    by (simp add: db_createPost_def Let_def split: prod.splits option.splits)
  have d_upd: "fst (fst (db_updatePost L now db u i b)) \<in> {400, 401, 403, 404, 409} \<longrightarrow>
      snd (db_updatePost L now db u i b) = db" for now u i b
  proof (cases "int4in L i")
    case None then show ?thesis
      by (simp add: db_updatePost_def update_errors_def select_posts_by_id_def)
  next
    case (Some n) then show ?thesis
      by (simp add: db_updatePost_cases[OF Some] split: list.splits)
  qed
  have d_del: "fst (fst (db_deletePost L db u i)) \<in> {400, 401, 403, 404, 409} \<longrightarrow>
      snd (db_deletePost L db u i) = db" for u i
  proof (cases "int4in L i")
    case None then show ?thesis
      by (simp add: db_deletePost_def select_posts_by_id_def)
  next
    case (Some n) then show ?thesis
      by (simp add: db_deletePost_cases[OF Some] split: list.splits)
  qed
  have dbh: "fst (fst (db_handle L cfg db ev)) \<in> {400, 401, 403, 404, 409} \<longrightarrow>
      snd (db_handle L cfg db ev) = db"
  proof (cases "ev_request ev")
    case (Register b) then show ?thesis using d_reg by (simp add: db_handle_def Let_def)
  next
    case (Login b) then show ?thesis using d_login by (simp add: db_handle_def Let_def)
  next
    case (GetProfile h) then show ?thesis
      using prot[of "\<lambda>u. db_profile db u" db] d_prof by (simp add: db_handle_def Let_def)
  next
    case ListPosts then show ?thesis by (simp add: db_handle_def db_listPosts_def)
  next
    case (CreatePost h b) then show ?thesis
      using prot[of "\<lambda>u. db_createPost (ev_now ev) db u b" db] d_create
      by (simp add: db_handle_def Let_def)
  next
    case (UpdatePost h i b) then show ?thesis
      using prot[of "\<lambda>u. db_updatePost L (ev_now ev) db u i b" db] d_upd
      by (simp add: db_handle_def Let_def)
  next
    case (DeletePost h i) then show ?thesis
      using prot[of "\<lambda>u. db_deletePost L db u i" db] d_del
      by (simp add: db_handle_def Let_def)
  qed
  from mem dbh show ?thesis ..
qed

theorem failures_change_nothing_witness:
  "fst (mem_handle ref_lib ref_config example_store
         \<lparr>ev_now = 20, ev_salt = ''s'', ev_request = UpdatePost bob_header ''1'' no_body\<rparr>)
     = ForbiddenEdit \<and>
   snd (mem_handle ref_lib ref_config example_store
         \<lparr>ev_now = 20, ev_salt = ''s'', ev_request = UpdatePost bob_header ''1'' no_body\<rparr>)
     = example_store \<and>
   fst (db_handle ref_lib ref_config example_db
         \<lparr>ev_now = 20, ev_salt = ''s'', ev_request = DeletePost None ''1''\<rparr>)
     = MissingToken \<and>
   snd (db_handle ref_lib ref_config example_db
         \<lparr>ev_now = 20, ev_salt = ''s'', ev_request = DeletePost None ''1''\<rparr>)
     = example_db"
proof -
  have p1: "parseInt ref_lib ''1'' = Some 1"
    by (simp add: ref_defs)
  have find1: "findIndex (id_is (Some 1)) (posts example_store) = Some 0"
    by (simp add: id_is_def example_defs)
  have m: "fst (mem_handle ref_lib ref_config example_store
         \<lparr>ev_now = 20, ev_salt = ''s'', ev_request = UpdatePost bob_header ''1'' no_body\<rparr>)
     = ForbiddenEdit"
    by (simp add: mem_handle_def protected_authenticated[OF ref_headers(1)]
          mem_updatePost_cases p1 find1)
       (simp add: example_defs)
  have d: "fst (db_handle ref_lib ref_config example_db
         \<lparr>ev_now = 20, ev_salt = ''s'', ev_request = DeletePost None ''1''\<rparr>)
     = MissingToken"
    by (simp add: db_handle_def protected_def authenticateToken_def header_token_def)
  show ?thesis
    using failures_change_nothing[of ref_lib ref_config example_store
        "\<lparr>ev_now = 20, ev_salt = ''s'', ev_request = UpdatePost bob_header ''1'' no_body\<rparr>"
        example_db]
      failures_change_nothing[of ref_lib ref_config example_store
        "\<lparr>ev_now = 20, ev_salt = ''s'', ev_request = DeletePost None ''1''\<rparr>"
        example_db]
    by (simp add: m d)
qed

end
